theory Spec2Isabelle
  imports Main
begin

section \<open>Data model of \<^verbatim>\<open>src/account/default.ts\<close>\<close>

text \<open>
  The class \<^verbatim>\<open>Account\<close> talks to three collaborators: the provider it extends
  (\<^verbatim>\<open>callContract\<close>, \<^verbatim>\<open>invokeFunction\<close>), its signer
  (\<^verbatim>\<open>signTransaction\<close>) and the pure helpers of \<^verbatim>\<open>utils/number\<close>,
  \<^verbatim>\<open>utils/stark\<close> and \<^verbatim>\<open>utils/typedData\<close>. A rejected promise or a thrown
  exception is a value \<open>Inl e\<close>; every request that leaves the account is appended to a
  trace of events, so that "no network call" and "no signing" are statements about the
  trace.
\<close>

datatype error =
    Error string
  | NetworkError string
  | ContractReadError string
  | EncodingError string
  | SigningError string

text \<open>\<^verbatim>\<open>BigNumberish = string | number | BN\<close>\<close>

datatype BigNumberish = BNString string | BNNumber int | BNObject int

text \<open>
  \<^verbatim>\<open>ExecuteInvocation\<close> is \<^verbatim>\<open>Invocation\<close> without its signature; the optional
  \<^verbatim>\<open>calldata\<close> field is \<open>None\<close> when omitted. The element type is a parameter:
  \<^verbatim>\<open>execute\<close> receives \<open>BigNumberish\<close> elements, the provider receives strings.
  A value of type \<^verbatim>\<open>ExecuteInvocation\<close> has no further field, so the rest
  \<^verbatim>\<open>...invocation\<close> that \<^verbatim>\<open>execute\<close> passes on to the signer is empty.
\<close>

record 'c ExecuteInvocation =
  contractAddress :: string
  entrypoint :: string
  calldata :: "'c list option"

record 'c Invocation = "'c ExecuteInvocation" +
  signature :: "string list option"

text \<open>\<^verbatim>\<open>execute\<close> takes \<^verbatim>\<open>ExecuteInvocation | ExecuteInvocation[]\<close>.\<close>

datatype transactions =
    Single "BigNumberish ExecuteInvocation"
  | Many "BigNumberish ExecuteInvocation list"

text \<open>
  \<^verbatim>\<open>InvocationsDetails = { nonce?: BigNumberish }\<close>, with \<open>None\<close> for an absent nonce
  (the default argument \<^verbatim>\<open>{}\<close> is \<open>\<lparr>nonce = None\<rparr>\<close>); the signer receives the resolved
  nonce as a big number together with the wallet address.
\<close>

record 'n InvocationsDetails =
  nonce :: 'n

record 'n InvocationsSignerDetails = "'n InvocationsDetails" +
  walletAddress :: string

record AddTransactionResponse =
  code :: string
  transaction_hash :: string

record Account =
  address :: string

datatype 'abi event =
    CallContract "string Invocation"
  | SignTransaction "string ExecuteInvocation list" "int InvocationsSignerDetails" "'abi list"
  | InvokeFunction "string Invocation"

text \<open>
  The collaborators. A network or signer answer may depend on everything that happened
  before (the trace) and on the request. \<open>toBN\<close> receives \<open>None\<close> where the source
  passes \<^verbatim>\<open>undefined\<close> (element 0 of an empty result array). \<open>FIELD_PRIME\<close> is the
  modulus of the field, used by the calldata compiler's range check.
\<close>

record ('abi, 'td) env =
  toBN :: "BigNumberish option \<Rightarrow> error + int"
  toHex :: "int \<Rightarrow> string"
  getSelectorFromName :: "string \<Rightarrow> string"
  getMessageHash :: "'td \<Rightarrow> string \<Rightarrow> error + string"
  FIELD_PRIME :: int
  callContract :: "'abi event list \<Rightarrow> string Invocation \<Rightarrow> error + string list"
  signTransaction :: "'abi event list \<Rightarrow> string ExecuteInvocation list \<Rightarrow>
      int InvocationsSignerDetails \<Rightarrow> 'abi list \<Rightarrow> error + string list"
  invokeFunction :: "'abi event list \<Rightarrow> string Invocation \<Rightarrow> error + AddTransactionResponse"

section \<open>Decimal rendering\<close>

text \<open>
  \<^verbatim>\<open>Number.prototype.toString()\<close> on an array length and \<^verbatim>\<open>BN.prototype.toString()\<close>
  (base 10) both print the decimal digits of the number, with a leading minus sign for a
  negative big number.
\<close>

definition digit_char :: "nat \<Rightarrow> char" where
  "digit_char d = char_of (48 + d)"

function string_of_nat :: "nat \<Rightarrow> string" where
  "string_of_nat n =
     (if n < 10 then [digit_char n]
      else string_of_nat (n div 10) @ [digit_char (n mod 10)])"
  by pat_completeness auto
termination
  by (relation "measure id") auto

declare string_of_nat.simps [simp del]

definition bn_toString :: "int \<Rightarrow> string" where
  "bn_toString i =
     (if i < 0 then CHR ''-'' # string_of_nat (nat (- i)) else string_of_nat (nat i))"

section \<open>Helpers of \<^verbatim>\<open>utils\<close>\<close>

text \<open>
  \<^verbatim>\<open>Array.prototype.map\<close> with a callback that may throw: elements are converted from
  left to right and the first exception ends the whole map.
\<close>

fun mapM :: "('a \<Rightarrow> error + 'b) \<Rightarrow> 'a list \<Rightarrow> error + 'b list" where
  "mapM f [] = Inr []"
| "mapM f (x # xs) =
     (case f x of
        Inl e \<Rightarrow> Inl e
      | Inr y \<Rightarrow> (case mapM f xs of Inl e \<Rightarrow> Inl e | Inr ys \<Rightarrow> Inr (y # ys)))"

text \<open>
  Modelled from the spec: \<^verbatim>\<open>bigNumberishArrayToDecimalStringArray\<close> of
  \<^verbatim>\<open>utils/number\<close> is not under \<^verbatim>\<open>src/\<close>. The spec speaks of
  "decimal-string-convertible" integers and its scenario submits the number 100 as "100";
  as the name says, the result is an array of decimal strings, one for every element and
  in the same order: each element is read by \<open>toBN\<close> and printed in base 10.
\<close>

definition bigNumberishArrayToDecimalStringArray ::
  "('abi, 'td) env \<Rightarrow> BigNumberish list \<Rightarrow> error + string list" where
  "bigNumberishArrayToDecimalStringArray env rawCalldata =
     (case mapM (\<lambda>x. toBN env (Some x)) rawCalldata of
        Inl e \<Rightarrow> Inl e
      | Inr ns \<Rightarrow> Inr (map bn_toString ns))"

text \<open>
  Modelled from the spec: \<^verbatim>\<open>compileCalldata\<close> of \<^verbatim>\<open>utils/stark\<close> is not under
  \<^verbatim>\<open>src/\<close>. Spec 4.1: the named arguments are encoded in order; "arrays are encoded as
  a length-prefix element followed by their elements in order; scalars are encoded as
  themselves; nested structures are flattened depth-first"; "input values must be
  representable as non-negative integers within the field's modulus; out-of-range values
  fail with an EncodingError".
\<close>

datatype ArgValue = ArgScalar string | ArgArray "ArgValue list"

fun flattenArg :: "ArgValue \<Rightarrow> string list" where
  "flattenArg (ArgScalar s) = [s]"
| "flattenArg (ArgArray vs) = string_of_nat (length vs) # concat (map flattenArg vs)"

definition representable :: "('abi, 'td) env \<Rightarrow> string \<Rightarrow> bool" where
  "representable env s =
     (case toBN env (Some (BNString s)) of
        Inl e \<Rightarrow> False
      | Inr n \<Rightarrow> 0 \<le> n \<and> n < FIELD_PRIME env)"

definition compileCalldata ::
  "('abi, 'td) env \<Rightarrow> (string \<times> ArgValue) list \<Rightarrow> error + string list" where
  "compileCalldata env args =
     (let flat = concat (map (\<lambda>(name, v). flattenArg v) args)
      in if list_all (representable env) flat then Inr flat
         else Inl (EncodingError ''value out of range''))"

section \<open>The account\<close>

type_synonym ('a, 'abi) io = "'abi event list \<Rightarrow> (error + 'a) \<times> 'abi event list"

text \<open>The argument of the \<^verbatim>\<open>callContract\<close> in \<^verbatim>\<open>getNonce\<close>.\<close>

definition get_nonce_request :: "Account \<Rightarrow> string Invocation" where
  "get_nonce_request acct =
     \<lparr>contractAddress = address acct, entrypoint = ''get_nonce'',
      calldata = None, signature = None\<rparr>"

definition getNonce :: "('abi, 'td) env \<Rightarrow> Account \<Rightarrow> (string, 'abi) io" where
  "getNonce env acct tr =
     (let req = get_nonce_request acct;
          tr1 = tr @ [CallContract req]
      in case callContract env tr req of
           Inl e \<Rightarrow> (Inl e, tr1)
         | Inr result \<Rightarrow>
             (case toBN env (case result of [] \<Rightarrow> None | r # rs \<Rightarrow> Some (BNString r)) of
                Inl e \<Rightarrow> (Inl e, tr1)
              | Inr n \<Rightarrow> (Inr (toHex env n), tr1)))"

text \<open>
  The outer calldata array literal of \<^verbatim>\<open>execute\<close> (lines 81 to 87) and the request
  handed to \<^verbatim>\<open>invokeFunction\<close>.
\<close>

definition execute_calldata ::
  "string \<Rightarrow> string \<Rightarrow> string list \<Rightarrow> int \<Rightarrow> string list" where
  "execute_calldata contractAddr entrypointSelector calldataDecimal nonceBn =
     [contractAddr, entrypointSelector, string_of_nat (length calldataDecimal)]
       @ calldataDecimal @ [bn_toString nonceBn]"

definition execute_request ::
  "Account \<Rightarrow> string list \<Rightarrow> string list \<Rightarrow> string Invocation" where
  "execute_request acct cd sg =
     \<lparr>contractAddress = address acct, entrypoint = ''execute'',
      calldata = Some cd, signature = Some sg\<rparr>"

text \<open>
  Line 48: the guard of the \<^verbatim>\<open>throw\<close>; line 57: the invocation that is destructured;
  line 54: the default \<^verbatim>\<open>calldata = []\<close> of an omitted field.
\<close>

definition rejected :: "transactions \<Rightarrow> bool" where
  "rejected txs = (case txs of Many ts \<Rightarrow> length ts \<noteq> 1 | Single t \<Rightarrow> False)"

definition invocation_of :: "transactions \<Rightarrow> BigNumberish ExecuteInvocation" where
  "invocation_of txs = (case txs of Many ts \<Rightarrow> ts ! 0 | Single t \<Rightarrow> t)"

definition calldata_or_empty :: "'c ExecuteInvocation \<Rightarrow> 'c list" where
  "calldata_or_empty t = (case calldata t of None \<Rightarrow> [] | Some c \<Rightarrow> c)"

text \<open>Line 60: \<^verbatim>\<open>nonce ?? (await this.getNonce())\<close>.\<close>

definition resolveNonce ::
  "('abi, 'td) env \<Rightarrow> Account \<Rightarrow> BigNumberish option InvocationsDetails \<Rightarrow>
   (BigNumberish, 'abi) io" where
  "resolveNonce env acct transactionsDetail tr =
     (case nonce transactionsDetail of
        Some n \<Rightarrow> (Inr n, tr)
      | None \<Rightarrow>
          (case getNonce env acct tr of
             (Inl e, t) \<Rightarrow> (Inl e, t)
           | (Inr h, t) \<Rightarrow> (Inr (BNString h), t)))"

text \<open>Lines 63 to 74: the arguments of \<^verbatim>\<open>signTransaction\<close>.\<close>

definition signed_transactions ::
  "BigNumberish ExecuteInvocation \<Rightarrow> string list \<Rightarrow> string ExecuteInvocation list" where
  "signed_transactions t calldataDecimal =
     [\<lparr>contractAddress = contractAddress t, entrypoint = entrypoint t,
       calldata = Some calldataDecimal\<rparr>]"

definition signer_details :: "Account \<Rightarrow> int \<Rightarrow> int InvocationsSignerDetails" where
  "signer_details acct nonceBn = \<lparr>nonce = nonceBn, walletAddress = address acct\<rparr>"

definition execute ::
  "('abi, 'td) env \<Rightarrow> Account \<Rightarrow> transactions \<Rightarrow> 'abi list \<Rightarrow>
   BigNumberish option InvocationsDetails \<Rightarrow> (AddTransactionResponse, 'abi) io" where
  "execute env acct txs abis transactionsDetail tr =
     (if rejected txs
      then (Inl (Error ''Only one transaction at a time is currently supported''), tr)
      else
        (case resolveNonce env acct transactionsDetail tr of
           (Inl e, tr1) \<Rightarrow> (Inl e, tr1)
         | (Inr n, tr1) \<Rightarrow>
             (case toBN env (Some n) of
                Inl e \<Rightarrow> (Inl e, tr1)
              | Inr nonceBn \<Rightarrow>
                  (case bigNumberishArrayToDecimalStringArray env
                          (calldata_or_empty (invocation_of txs)) of
                     Inl e \<Rightarrow> (Inl e, tr1)
                   | Inr calldataDecimal \<Rightarrow>
                       (let signed = signed_transactions (invocation_of txs) calldataDecimal;
                            details = signer_details acct nonceBn;
                            tr2 = tr1 @ [SignTransaction signed details abis]
                        in case signTransaction env tr1 signed details abis of
                             Inl e \<Rightarrow> (Inl e, tr2)
                           | Inr sg \<Rightarrow>
                               (let entrypointSelector =
                                      getSelectorFromName env (entrypoint (invocation_of txs));
                                    req = execute_request acct
                                      (execute_calldata (contractAddress (invocation_of txs))
                                         entrypointSelector calldataDecimal nonceBn) sg
                                in (invokeFunction env tr2 req,
                                    tr2 @ [InvokeFunction req])))))))"

definition hashMessage :: "('abi, 'td) env \<Rightarrow> Account \<Rightarrow> 'td \<Rightarrow> (string, 'abi) io" where
  "hashMessage env acct typedData tr = (getMessageHash env typedData (address acct), tr)"

text \<open>
  The argument of the \<^verbatim>\<open>callContract\<close> in \<^verbatim>\<open>verifyMessageHash\<close>; building it can
  throw (inside the \<^verbatim>\<open>try\<close> block).
\<close>

definition is_valid_signature_request ::
  "('abi, 'td) env \<Rightarrow> Account \<Rightarrow> BigNumberish \<Rightarrow> string list \<Rightarrow> error + string Invocation" where
  "is_valid_signature_request env acct hash sg =
     (case toBN env (Some hash) of
        Inl e \<Rightarrow> Inl e
      | Inr h \<Rightarrow>
          (case mapM (\<lambda>x. toBN env (Some (BNString x))) sg of
             Inl e \<Rightarrow> Inl e
           | Inr ss \<Rightarrow>
               (case compileCalldata env
                       [(''hash'', ArgScalar (bn_toString h)),
                        (''signature'', ArgArray (map (\<lambda>x. ArgScalar (bn_toString x)) ss))] of
                  Inl e \<Rightarrow> Inl e
                | Inr cd \<Rightarrow>
                    Inr \<lparr>contractAddress = address acct,
                         entrypoint = ''is_valid_signature'',
                         calldata = Some cd, signature = None\<rparr>)))"

definition verifyMessageHash ::
  "('abi, 'td) env \<Rightarrow> Account \<Rightarrow> BigNumberish \<Rightarrow> string list \<Rightarrow> (bool, 'abi) io" where
  "verifyMessageHash env acct hash sg tr =
     (case is_valid_signature_request env acct hash sg of
        Inl e \<Rightarrow> (Inr False, tr)
      | Inr req \<Rightarrow>
          (case callContract env tr req of
             Inl e \<Rightarrow> (Inr False, tr @ [CallContract req])
           | Inr r \<Rightarrow> (Inr True, tr @ [CallContract req])))"

definition verifyMessage ::
  "('abi, 'td) env \<Rightarrow> Account \<Rightarrow> 'td \<Rightarrow> string list \<Rightarrow> (bool, 'abi) io" where
  "verifyMessage env acct typedData sg tr =
     (case hashMessage env acct typedData tr of
        (Inl e, t) \<Rightarrow> (Inl e, t)
      | (Inr hash, t) \<Rightarrow> verifyMessageHash env acct (BNString hash) sg t)"

section \<open>A concrete environment\<close>

text \<open>
  A small provider and signer on which the operations can be run: \<open>test_toBN\<close> reads
  decimal strings and \<^verbatim>\<open>0x\<close>-prefixed hexadecimal strings; \<^verbatim>\<open>get_nonce\<close> answers
  \<^verbatim>\<open>0x5\<close>; any other read succeeds while the trace is empty and times out afterwards.
\<close>

definition hex_digit :: "char \<Rightarrow> nat option" where
  "hex_digit c =
     (let k = of_char c :: nat
      in if 48 \<le> k \<and> k \<le> 57 then Some (k - 48)
         else if 97 \<le> k \<and> k \<le> 102 then Some (k - 87)
         else None)"

fun parse_digits :: "nat \<Rightarrow> nat \<Rightarrow> string \<Rightarrow> nat option" where
  "parse_digits base acc [] = Some acc"
| "parse_digits base acc (c # cs) =
     (case hex_digit c of
        None \<Rightarrow> None
      | Some d \<Rightarrow> if d < base then parse_digits base (acc * base + d) cs else None)"

definition test_toBN :: "BigNumberish option \<Rightarrow> error + int" where
  "test_toBN v =
     (case v of
        None \<Rightarrow> Inr 0
      | Some (BNNumber i) \<Rightarrow> Inr i
      | Some (BNObject i) \<Rightarrow> Inr i
      | Some (BNString s) \<Rightarrow>
          (case (if take 2 s = ''0x'' then parse_digits 16 0 (drop 2 s)
                 else if s = [] then None else parse_digits 10 0 s) of
             None \<Rightarrow> Inl (Error ''Invalid character'')
           | Some n \<Rightarrow> Inr (int n)))"

definition test_env :: "(unit, unit) env" where
  "test_env =
     \<lparr>toBN = test_toBN,
      toHex = (\<lambda>i. ''0x'' @ bn_toString i),
      getSelectorFromName = (\<lambda>name. ''selector('' @ name @ '')''),
      getMessageHash = (\<lambda>td a. Inr ''0x7b''),
      FIELD_PRIME = 2 ^ 251 + 17 * 2 ^ 192 + 1,
      callContract = (\<lambda>tr req.
         if entrypoint req = ''get_nonce'' then Inr [''0x5'']
         else if tr = [] then Inr [] else Inl (NetworkError ''timeout'')),
      signTransaction = (\<lambda>tr ts d abis. Inr [''11'', ''22'']),
      invokeFunction = (\<lambda>tr req.
         Inr \<lparr>code = ''TRANSACTION_RECEIVED'', transaction_hash = ''0xabc''\<rparr>)\<rparr>"

definition test_account :: Account where
  "test_account = \<lparr>address = ''0xacc''\<rparr>"

text \<open>The invocation of the spec's scenario: \<^verbatim>\<open>transfer\<close> on \<^verbatim>\<open>0x1\<close> with \<^verbatim>\<open>["0x2", 100]\<close>.\<close>

definition test_invocation :: "BigNumberish ExecuteInvocation" where
  "test_invocation =
     \<lparr>contractAddress = ''0x1'', entrypoint = ''transfer'',
      calldata = Some [BNString ''0x2'', BNNumber 100]\<rparr>"

text \<open>Variants of the environment: a provider whose every read times out, and a hasher
  that rejects its typed data.\<close>

definition offline_env :: "(unit, unit) env" where
  "offline_env = test_env\<lparr>callContract := (\<lambda>tr req. Inl (NetworkError ''timeout''))\<rparr>"

definition strict_env :: "(unit, unit) env" where
  "strict_env = test_env\<lparr>getMessageHash := (\<lambda>td a. Inl (Error ''invalid typed data''))\<rparr>"

text \<open>Inputs and expected requests of the runs below.\<close>

definition test_details :: "BigNumberish option InvocationsDetails" where
  "test_details = \<lparr>nonce = Some (BNNumber 5)\<rparr>"

definition no_details :: "BigNumberish option InvocationsDetails" where
  "no_details = \<lparr>nonce = None\<rparr>"

definition bare_invocation :: "BigNumberish ExecuteInvocation" where
  "bare_invocation =
     \<lparr>contractAddress = ''0x1'', entrypoint = ''transfer'', calldata = None\<rparr>"

definition test_signing :: "unit event" where
  "test_signing =
     SignTransaction
       [\<lparr>contractAddress = ''0x1'', entrypoint = ''transfer'',
         calldata = Some [''2'', ''100'']\<rparr>]
       \<lparr>nonce = 5, walletAddress = ''0xacc''\<rparr> []"

definition test_submission :: "string Invocation" where
  "test_submission =
     \<lparr>contractAddress = ''0xacc'', entrypoint = ''execute'',
      calldata = Some [''0x1'', ''selector(transfer)'', ''2'', ''2'', ''100'', ''5''],
      signature = Some [''11'', ''22'']\<rparr>"

definition bare_signing :: "unit event" where
  "bare_signing =
     SignTransaction
       [\<lparr>contractAddress = ''0x1'', entrypoint = ''transfer'', calldata = Some []\<rparr>]
       \<lparr>nonce = 5, walletAddress = ''0xacc''\<rparr> []"

definition bare_submission :: "string Invocation" where
  "bare_submission =
     \<lparr>contractAddress = ''0xacc'', entrypoint = ''execute'',
      calldata = Some [''0x1'', ''selector(transfer)'', ''0'', ''5''],
      signature = Some [''11'', ''22'']\<rparr>"

definition test_validation :: "string Invocation" where
  "test_validation =
     \<lparr>contractAddress = ''0xacc'', entrypoint = ''is_valid_signature'',
      calldata = Some [''123'', ''2'', ''1'', ''2''], signature = None\<rparr>"

definition test_receipt :: AddTransactionResponse where
  "test_receipt = \<lparr>code = ''TRANSACTION_RECEIVED'', transaction_hash = ''0xabc''\<rparr>"

text \<open>The test provider with the data of every successful answer replaced by
  \<^verbatim>\<open>["0"]\<close>.\<close>

definition relabelled_env :: "(unit, unit) env" where
  "relabelled_env =
     test_env\<lparr>callContract := \<lambda>t q. map_sum id (\<lambda>r. [''0'']) (callContract test_env t q)\<rparr>"

section \<open>Auxiliary facts\<close>

lemma mapM_length: "mapM f xs = Inr ys \<Longrightarrow> length ys = length xs"
  by (induction xs arbitrary: ys) (auto split: sum.splits)

lemma toDecimal_Inr:
  "bigNumberishArrayToDecimalStringArray env xs = Inr ds \<Longrightarrow>
   \<exists>ns. mapM (\<lambda>x. toBN env (Some x)) xs = Inr ns \<and> ds = map bn_toString ns \<and>
        length ns = length xs"
  by (auto simp: bigNumberishArrayToDecimalStringArray_def dest: mapM_length split: sum.splits)

lemma string_of_nat_0: "string_of_nat 0 = ''0''"
  by code_simp

lemma resolveNonce_trace:
  "resolveNonce env acct det tr = (r, tr1) \<Longrightarrow>
   \<exists>evs. tr1 = tr @ evs \<and> (\<forall>req. InvokeFunction req \<notin> set evs)"
  by (auto simp: resolveNonce_def getNonce_def Let_def
        split: sum.splits prod.splits option.splits)

text \<open>The helpers of \<^verbatim>\<open>execute\<close> in terms of its arguments.\<close>

lemma mapM_list_all2:
  "mapM f xs = Inr ys \<longleftrightarrow> list_all2 (\<lambda>x y. f x = Inr y) xs ys"
proof (induction xs arbitrary: ys)
  case Nil
  then show ?case by auto
next
  case (Cons x xs)
  show ?case
    by (cases ys) (auto simp: Cons.IH [symmetric] split: sum.splits)
qed

lemma accepted_shape:
  "txs = Single t \<or> txs = Many [t] \<Longrightarrow> \<not> rejected txs \<and> invocation_of txs = t"
  by (auto simp: rejected_def invocation_of_def)

lemma resolveNonce_Inr:
  "resolveNonce env acct det tr = (Inr n, tr1) \<longleftrightarrow>
     (nonce det = Some n \<and> tr1 = tr \<or>
      nonce det = None \<and>
      (\<exists>result k.
         callContract env tr
           \<lparr>contractAddress = address acct, entrypoint = ''get_nonce'',
            calldata = None, signature = None\<rparr> = Inr result \<and>
         toBN env (case result of [] \<Rightarrow> None | r # rs \<Rightarrow> Some (BNString r)) = Inr k \<and>
         n = BNString (toHex env k) \<and>
         tr1 = tr @ [CallContract
           \<lparr>contractAddress = address acct, entrypoint = ''get_nonce'',
            calldata = None, signature = None\<rparr>]))"
  by (auto simp: resolveNonce_def getNonce_def get_nonce_request_def Let_def
        split: option.splits sum.splits)

text \<open>The run of \<^verbatim>\<open>execute\<close> in which no step fails.\<close>

lemma execute_success:
  assumes "\<not> rejected txs"
    and "resolveNonce env acct det tr = (Inr n, tr1)"
    and "toBN env (Some n) = Inr nonceBn"
    and "mapM (\<lambda>x. toBN env (Some x)) (calldata_or_empty (invocation_of txs)) = Inr ns"
    and "signTransaction env tr1 (signed_transactions (invocation_of txs) (map bn_toString ns))
           (signer_details acct nonceBn) abis = Inr sg"
  shows "execute env acct txs abis det tr =
     (let tr2 = tr1 @ [SignTransaction (signed_transactions (invocation_of txs) (map bn_toString ns))
                         (signer_details acct nonceBn) abis];
          req = \<lparr>contractAddress = address acct, entrypoint = ''execute'',
                 calldata = Some ([contractAddress (invocation_of txs),
                                   getSelectorFromName env (entrypoint (invocation_of txs)),
                                   string_of_nat (length (calldata_or_empty (invocation_of txs)))]
                                  @ map bn_toString ns @ [bn_toString nonceBn]),
                 signature = Some sg\<rparr>
      in (invokeFunction env tr2 req, tr2 @ [InvokeFunction req]))"
  using assms mapM_length[OF assms(4)]
  by (simp add: execute_def bigNumberishArrayToDecimalStringArray_def Let_def
        execute_request_def execute_calldata_def)

text \<open>Every submission that \<^verbatim>\<open>execute\<close> makes comes from such a run.\<close>

lemma execute_submitted:
  assumes "snd (execute env acct txs abis det tr) = tr @ evs"
    and "InvokeFunction req \<in> set evs"
  shows "\<exists>n tr1 nonceBn ns.
           \<not> rejected txs \<and> resolveNonce env acct det tr = (Inr n, tr1) \<and>
           toBN env (Some n) = Inr nonceBn \<and>
           mapM (\<lambda>x. toBN env (Some x)) (calldata_or_empty (invocation_of txs)) = Inr ns \<and>
           contractAddress req = address acct \<and> entrypoint req = ''execute'' \<and>
           calldata req =
             Some ([contractAddress (invocation_of txs),
                    getSelectorFromName env (entrypoint (invocation_of txs)),
                    string_of_nat (length (calldata_or_empty (invocation_of txs)))]
                   @ map bn_toString ns @ [bn_toString nonceBn])"
proof -
  obtain r tr1 where rn: "resolveNonce env acct det tr = (r, tr1)"
    by (cases "resolveNonce env acct det tr")
  then obtain evs1 where tr1: "tr1 = tr @ evs1" and no: "\<forall>q. InvokeFunction q \<notin> set evs1"
    using resolveNonce_trace by blast
  show ?thesis
    using assms rn no unfolding tr1
    by (auto simp: execute_def Let_def execute_request_def execute_calldata_def
          dest!: toDecimal_Inr split: sum.splits if_splits)
qed

text \<open>With an override, the events of \<^verbatim>\<open>execute\<close> are a signing and a submission at most.\<close>

lemma execute_override:
  "nonce det = Some n \<Longrightarrow>
   \<exists>evs. snd (execute env acct txs abis det tr) = tr @ evs \<and>
         (\<forall>req. CallContract req \<notin> set evs) \<and>
         (\<forall>ts d a. SignTransaction ts d a \<in> set evs \<longrightarrow> toBN env (Some n) = Inr (nonce d)) \<and>
         (\<forall>req. InvokeFunction req \<in> set evs \<longrightarrow>
            (\<exists>nb cd. toBN env (Some n) = Inr nb \<and> calldata req = Some (cd @ [bn_toString nb])))"
  by (auto simp: execute_def resolveNonce_def Let_def signer_details_def execute_request_def
        execute_calldata_def split: sum.splits)

lemma execute_fetch:
  "nonce det = None \<Longrightarrow> \<not> rejected txs \<Longrightarrow>
   execute env acct txs abis det tr =
     (case getNonce env acct tr of
        (Inl e, t) \<Rightarrow> (Inl e, t)
      | (Inr h, t) \<Rightarrow> execute env acct txs abis (det\<lparr>nonce := Some (BNString h)\<rparr>) t)"
  by (auto simp: execute_def resolveNonce_def split: sum.splits prod.splits)

text \<open>
  \<^verbatim>\<open>execute\<close> reads three things of its invocation: the address, the entrypoint and the
  calldata with its default.
\<close>

lemma execute_Single_cong:
  "contractAddress t = contractAddress t' \<Longrightarrow> entrypoint t = entrypoint t' \<Longrightarrow>
   calldata_or_empty t = calldata_or_empty t' \<Longrightarrow>
   execute env acct (Single t) abis det tr = execute env acct (Single t') abis det tr"
  unfolding execute_def rejected_def invocation_of_def signed_transactions_def transactions.case
  by (simp cong: sum.case_cong prod.case_cong)

text \<open>The compiled arguments of \<^verbatim>\<open>is_valid_signature\<close>.\<close>

lemma flatten_scalars:
  "concat (map (flattenArg \<circ> (\<lambda>x. ArgScalar (g x))) xs) = map g xs"
  by (induction xs) simp_all

lemma compile_hash_signature:
  "compileCalldata env
      [(''hash'', ArgScalar h), (''signature'', ArgArray (map (\<lambda>x. ArgScalar (g x)) ss))]
     = Inr cd \<Longrightarrow> cd = h # string_of_nat (length ss) # map g ss"
  by (auto simp: compileCalldata_def Let_def flatten_scalars split: if_splits)

lemma request_shape:
  assumes "is_valid_signature_request env acct h sg = Inr req"
  shows "\<exists>hb ss. toBN env (Some h) = Inr hb \<and>
           mapM (\<lambda>x. toBN env (Some (BNString x))) sg = Inr ss \<and>
           req = \<lparr>contractAddress = address acct, entrypoint = ''is_valid_signature'',
                  calldata = Some (bn_toString hb # string_of_nat (length sg) # map bn_toString ss),
                  signature = None\<rparr>"
  using assms
  by (auto simp: is_valid_signature_request_def split: sum.splits
        dest!: compile_hash_signature dest: mapM_length)

lemma representable_ignores_network:
  "representable (env\<lparr>callContract := c\<rparr>) = representable env"
  by (rule ext) (simp add: representable_def split: sum.splits)

lemma request_ignores_network:
  "is_valid_signature_request (env\<lparr>callContract := c\<rparr>) acct h sg =
   is_valid_signature_request env acct h sg"
  by (simp add: is_valid_signature_request_def compileCalldata_def
        representable_ignores_network cong: sum.case_cong)

section \<open>The calldata submitted by \<^verbatim>\<open>execute\<close>\<close>

text \<open>
  C1. For every invocation \<open>t\<close> accepted by \<^verbatim>\<open>execute\<close> (passed alone or as a
  one-element array), with inner calldata \<open>c\<close> (empty when omitted) and nonce \<open>n\<close> (the
  caller's override, or else the answer of the \<^verbatim>\<open>get_nonce\<close> read), the outer calldata
  submitted to the account's \<^verbatim>\<open>execute\<close> entrypoint is exactly: the contract address of
  \<open>t\<close>, the selector of the entrypoint name of \<open>t\<close>, the length of \<open>c\<close>, the elements of
  \<open>c\<close> in order, then the nonce. The length, the elements and the nonce travel as decimal
  strings of their numeric values. First half: when the nonce is resolved and conversion
  and signing succeed, exactly this request is submitted, after the signing. Second half:
  no submission of any other shape is ever made.
\<close>

theorem execute_outer_calldata:
  "(\<forall>c n tr1 nonceBn ns signed details sg req.
      (txs = Single t \<or> txs = Many [t]) \<and>
      c = (case calldata t of None \<Rightarrow> [] | Some xs \<Rightarrow> xs) \<and>
      (nonce det = Some n \<and> tr1 = tr \<or>
       nonce det = None \<and>
       (\<exists>result k.
          callContract env tr
            \<lparr>contractAddress = address acct, entrypoint = ''get_nonce'',
             calldata = None, signature = None\<rparr> = Inr result \<and>
          toBN env (case result of [] \<Rightarrow> None | r # rs \<Rightarrow> Some (BNString r)) = Inr k \<and>
          n = BNString (toHex env k) \<and>
          tr1 = tr @ [CallContract
            \<lparr>contractAddress = address acct, entrypoint = ''get_nonce'',
             calldata = None, signature = None\<rparr>])) \<and>
      toBN env (Some n) = Inr nonceBn \<and>
      list_all2 (\<lambda>x k. toBN env (Some x) = Inr k) c ns \<and>
      signed = [\<lparr>contractAddress = contractAddress t, entrypoint = entrypoint t,
                 calldata = Some (map bn_toString ns)\<rparr>] \<and>
      details = \<lparr>nonce = nonceBn, walletAddress = address acct\<rparr> \<and>
      signTransaction env tr1 signed details abis = Inr sg \<and>
      req = \<lparr>contractAddress = address acct, entrypoint = ''execute'',
             calldata = Some ([contractAddress t, getSelectorFromName env (entrypoint t),
                               string_of_nat (length c)]
                              @ map bn_toString ns @ [bn_toString nonceBn]),
             signature = Some sg\<rparr> \<longrightarrow>
      execute env acct txs abis det tr =
        (invokeFunction env (tr1 @ [SignTransaction signed details abis]) req,
         tr1 @ [SignTransaction signed details abis, InvokeFunction req])) \<and>
   (\<forall>c evs req.
      (txs = Single t \<or> txs = Many [t]) \<and>
      c = (case calldata t of None \<Rightarrow> [] | Some xs \<Rightarrow> xs) \<and>
      snd (execute env acct txs abis det tr) = tr @ evs \<and> InvokeFunction req \<in> set evs \<longrightarrow>
      (\<exists>n nonceBn ns.
         (nonce det = Some n \<or>
          nonce det = None \<and>
          (\<exists>result k.
             callContract env tr
               \<lparr>contractAddress = address acct, entrypoint = ''get_nonce'',
                calldata = None, signature = None\<rparr> = Inr result \<and>
             toBN env (case result of [] \<Rightarrow> None | r # rs \<Rightarrow> Some (BNString r)) = Inr k \<and>
             n = BNString (toHex env k))) \<and>
         toBN env (Some n) = Inr nonceBn \<and>
         list_all2 (\<lambda>x k. toBN env (Some x) = Inr k) c ns \<and>
         contractAddress req = address acct \<and> entrypoint req = ''execute'' \<and>
         calldata req =
           Some ([contractAddress t, getSelectorFromName env (entrypoint t),
                  string_of_nat (length c)]
                 @ map bn_toString ns @ [bn_toString nonceBn])))"
proof (intro conjI allI impI)
  fix c n tr1 nonceBn ns signed details sg req
  assume h: "(txs = Single t \<or> txs = Many [t]) \<and>
      c = (case calldata t of None \<Rightarrow> [] | Some xs \<Rightarrow> xs) \<and>
      (nonce det = Some n \<and> tr1 = tr \<or>
       nonce det = None \<and>
       (\<exists>result k.
          callContract env tr
            \<lparr>contractAddress = address acct, entrypoint = ''get_nonce'',
             calldata = None, signature = None\<rparr> = Inr result \<and>
          toBN env (case result of [] \<Rightarrow> None | r # rs \<Rightarrow> Some (BNString r)) = Inr k \<and>
          n = BNString (toHex env k) \<and>
          tr1 = tr @ [CallContract
            \<lparr>contractAddress = address acct, entrypoint = ''get_nonce'',
             calldata = None, signature = None\<rparr>])) \<and>
      toBN env (Some n) = Inr nonceBn \<and>
      list_all2 (\<lambda>x k. toBN env (Some x) = Inr k) c ns \<and>
      signed = [\<lparr>contractAddress = contractAddress t, entrypoint = entrypoint t,
                 calldata = Some (map bn_toString ns)\<rparr>] \<and>
      details = \<lparr>nonce = nonceBn, walletAddress = address acct\<rparr> \<and>
      signTransaction env tr1 signed details abis = Inr sg \<and>
      req = \<lparr>contractAddress = address acct, entrypoint = ''execute'',
             calldata = Some ([contractAddress t, getSelectorFromName env (entrypoint t),
                               string_of_nat (length c)]
                              @ map bn_toString ns @ [bn_toString nonceBn]),
             signature = Some sg\<rparr>"
  from h have acc: "\<not> rejected txs" and inv: "invocation_of txs = t"
    using accepted_shape by blast+
  from h have c: "calldata_or_empty t = c"
    by (simp add: calldata_or_empty_def)
  from h have rn: "resolveNonce env acct det tr = (Inr n, tr1)"
    unfolding resolveNonce_Inr by blast
  from h have nb: "toBN env (Some n) = Inr nonceBn"
    by blast
  from h have m: "mapM (\<lambda>x. toBN env (Some x)) c = Inr ns"
    unfolding mapM_list_all2 by blast
  from h have e1: "signed = signed_transactions t (map bn_toString ns)"
    and e2: "details = signer_details acct nonceBn"
    unfolding signed_transactions_def signer_details_def by blast+
  from h have "signTransaction env tr1 signed details abis = Inr sg"
    by blast
  then have sg: "signTransaction env tr1 (signed_transactions t (map bn_toString ns))
      (signer_details acct nonceBn) abis = Inr sg"
    unfolding e1 e2 .
  from h have rq: "req = \<lparr>contractAddress = address acct, entrypoint = ''execute'',
             calldata = Some ([contractAddress t, getSelectorFromName env (entrypoint t),
                               string_of_nat (length c)]
                              @ map bn_toString ns @ [bn_toString nonceBn]),
             signature = Some sg\<rparr>"
    by blast
  have "execute env acct txs abis det tr =
     (let tr2 = tr1 @ [SignTransaction (signed_transactions (invocation_of txs) (map bn_toString ns))
                         (signer_details acct nonceBn) abis];
          req = \<lparr>contractAddress = address acct, entrypoint = ''execute'',
                 calldata = Some ([contractAddress (invocation_of txs),
                                   getSelectorFromName env (entrypoint (invocation_of txs)),
                                   string_of_nat (length (calldata_or_empty (invocation_of txs)))]
                                  @ map bn_toString ns @ [bn_toString nonceBn]),
                 signature = Some sg\<rparr>
      in (invokeFunction env tr2 req, tr2 @ [InvokeFunction req]))"
    by (rule execute_success [OF acc rn nb]) (simp_all only: inv c m sg)
  then have "execute env acct txs abis det tr =
     (invokeFunction env (tr1 @ [SignTransaction signed details abis]) req,
      (tr1 @ [SignTransaction signed details abis]) @ [InvokeFunction req])"
    unfolding Let_def inv c e1 e2 rq .
  then show "execute env acct txs abis det tr =
        (invokeFunction env (tr1 @ [SignTransaction signed details abis]) req,
         tr1 @ [SignTransaction signed details abis, InvokeFunction req])"
    by simp
next
  fix c evs req
  assume h: "(txs = Single t \<or> txs = Many [t]) \<and>
      c = (case calldata t of None \<Rightarrow> [] | Some xs \<Rightarrow> xs) \<and>
      snd (execute env acct txs abis det tr) = tr @ evs \<and> InvokeFunction req \<in> set evs"
  from h have inv: "invocation_of txs = t"
    using accepted_shape by blast
  from h have c: "calldata_or_empty t = c"
    by (simp add: calldata_or_empty_def)
  from h obtain n tr1 nonceBn ns where
    rn: "resolveNonce env acct det tr = (Inr n, tr1)" and
    nb: "toBN env (Some n) = Inr nonceBn" and
    m: "mapM (\<lambda>x. toBN env (Some x)) c = Inr ns" and
    r: "contractAddress req = address acct" "entrypoint req = ''execute''"
      "calldata req =
           Some ([contractAddress t, getSelectorFromName env (entrypoint t),
                  string_of_nat (length c)]
                 @ map bn_toString ns @ [bn_toString nonceBn])"
    using execute_submitted [of env acct txs abis det tr evs req]
    unfolding inv c by blast
  from rn have d: "nonce det = Some n \<or>
          nonce det = None \<and>
          (\<exists>result k.
             callContract env tr
               \<lparr>contractAddress = address acct, entrypoint = ''get_nonce'',
                calldata = None, signature = None\<rparr> = Inr result \<and>
             toBN env (case result of [] \<Rightarrow> None | r # rs \<Rightarrow> Some (BNString r)) = Inr k \<and>
             n = BNString (toHex env k))"
    unfolding resolveNonce_Inr by blast
  from m have l: "list_all2 (\<lambda>x k. toBN env (Some x) = Inr k) c ns"
    unfolding mapM_list_all2 .
  show "\<exists>n nonceBn ns.
         (nonce det = Some n \<or>
          nonce det = None \<and>
          (\<exists>result k.
             callContract env tr
               \<lparr>contractAddress = address acct, entrypoint = ''get_nonce'',
                calldata = None, signature = None\<rparr> = Inr result \<and>
             toBN env (case result of [] \<Rightarrow> None | r # rs \<Rightarrow> Some (BNString r)) = Inr k \<and>
             n = BNString (toHex env k))) \<and>
         toBN env (Some n) = Inr nonceBn \<and>
         list_all2 (\<lambda>x k. toBN env (Some x) = Inr k) c ns \<and>
         contractAddress req = address acct \<and> entrypoint req = ''execute'' \<and>
         calldata req =
           Some ([contractAddress t, getSelectorFromName env (entrypoint t),
                  string_of_nat (length c)]
                 @ map bn_toString ns @ [bn_toString nonceBn])"
    using d nb l r by blast
qed

text \<open>
  The spec's scenario (nonce 5, \<^verbatim>\<open>transfer\<close> on \<^verbatim>\<open>0x1\<close> with calldata
  \<^verbatim>\<open>["0x2", 100]\<close>), once with the override and once as a one-element array with the
  nonce read from the contract: the request submitted carries
  \<^verbatim>\<open>["0x1", selector, "2", "2", "100", "5"]\<close>; the element \<^verbatim>\<open>"0x2"\<close> is sent as the
  decimal string \<^verbatim>\<open>"2"\<close>.
\<close>

theorem execute_outer_calldata_witness:
  "(nonce test_details = Some (BNNumber 5) \<and>
    toBN test_env (Some (BNNumber 5)) = Inr 5 \<and>
    list_all2 (\<lambda>x k. toBN test_env (Some x) = Inr k) [BNString ''0x2'', BNNumber 100] [2, 100] \<and>
    execute test_env test_account (Single test_invocation) [] test_details [] =
      (Inr test_receipt, [test_signing, InvokeFunction test_submission]) \<and>
    calldata test_submission =
      Some [''0x1'', ''selector(transfer)'', ''2'', ''2'', ''100'', ''5'']) \<and>
   (nonce no_details = None \<and>
    callContract test_env []
      \<lparr>contractAddress = address test_account, entrypoint = ''get_nonce'',
       calldata = None, signature = None\<rparr> = Inr [''0x5''] \<and>
    execute test_env test_account (Many [test_invocation]) [] no_details [] =
      (Inr test_receipt,
       [CallContract (get_nonce_request test_account), test_signing,
        InvokeFunction test_submission])) \<and>
   (\<exists>n nonceBn ns.
      nonce test_details = Some n \<and> toBN test_env (Some n) = Inr nonceBn \<and>
      list_all2 (\<lambda>x k. toBN test_env (Some x) = Inr k) [BNString ''0x2'', BNNumber 100] ns \<and>
      calldata test_submission =
        Some ([contractAddress test_invocation,
               getSelectorFromName test_env (entrypoint test_invocation),
               string_of_nat (length [BNString ''0x2'', BNNumber 100])]
              @ map bn_toString ns @ [bn_toString nonceBn]))"
proof -
  let ?c = "[BNString ''0x2'', BNNumber 100]"
  let ?signed = "[\<lparr>contractAddress = ''0x1'', entrypoint = ''transfer'',
                   calldata = Some [''2'', ''100'']\<rparr>]"
  let ?details = "\<lparr>nonce = 5 :: int, walletAddress = ''0xacc''\<rparr>"
  let ?gn = "\<lparr>contractAddress = address test_account, entrypoint = ''get_nonce'',
              calldata = None, signature = None\<rparr>"
  have c: "?c = (case calldata test_invocation of None \<Rightarrow> [] | Some xs \<Rightarrow> xs)"
    by code_simp
  have n1: "nonce test_details = Some (BNNumber 5)"
    by code_simp
  have nb1: "toBN test_env (Some (BNNumber 5)) = Inr 5"
    by code_simp
  have l: "list_all2 (\<lambda>x k. toBN test_env (Some x) = Inr k) ?c [2, 100]"
    by code_simp
  have sd: "?signed = [\<lparr>contractAddress = contractAddress test_invocation,
                        entrypoint = entrypoint test_invocation,
                        calldata = Some (map bn_toString [2, 100])\<rparr>]"
    by code_simp
  have dt: "?details = \<lparr>nonce = 5, walletAddress = address test_account\<rparr>"
    by code_simp
  have s1: "signTransaction test_env [] ?signed ?details [] = Inr [''11'', ''22'']"
    by code_simp
  have rq: "test_submission =
      \<lparr>contractAddress = address test_account, entrypoint = ''execute'',
       calldata = Some ([contractAddress test_invocation,
                         getSelectorFromName test_env (entrypoint test_invocation),
                         string_of_nat (length ?c)]
                        @ map bn_toString [2, 100] @ [bn_toString 5]),
       signature = Some [''11'', ''22'']\<rparr>"
    by code_simp
  have cs: "calldata test_submission =
      Some [''0x1'', ''selector(transfer)'', ''2'', ''2'', ''100'', ''5'']"
    by code_simp
  have ev: "SignTransaction ?signed ?details [] = test_signing"
    by code_simp
  have iv1: "invokeFunction test_env ([] @ [test_signing]) test_submission = Inr test_receipt"
    by code_simp
  note one = execute_outer_calldata
    [where txs = "Single test_invocation" and t = test_invocation and env = test_env
       and acct = test_account and det = test_details and tr = "[]" and abis = "[]"]
  have H1: "(Single test_invocation = Single test_invocation \<or>
       Single test_invocation = Many [test_invocation]) \<and>
      ?c = (case calldata test_invocation of None \<Rightarrow> [] | Some xs \<Rightarrow> xs) \<and>
      (nonce test_details = Some (BNNumber 5) \<and> [] = ([] :: unit event list) \<or>
       nonce test_details = None \<and>
       (\<exists>result k.
          callContract test_env [] ?gn = Inr result \<and>
          toBN test_env (case result of [] \<Rightarrow> None | r # rs \<Rightarrow> Some (BNString r)) = Inr k \<and>
          BNNumber 5 = BNString (toHex test_env k) \<and>
          [] = [] @ [CallContract ?gn])) \<and>
      toBN test_env (Some (BNNumber 5)) = Inr 5 \<and>
      list_all2 (\<lambda>x k. toBN test_env (Some x) = Inr k) ?c [2, 100] \<and>
      ?signed = [\<lparr>contractAddress = contractAddress test_invocation,
                        entrypoint = entrypoint test_invocation,
                        calldata = Some (map bn_toString [2, 100])\<rparr>] \<and>
      ?details = \<lparr>nonce = 5, walletAddress = address test_account\<rparr> \<and>
      signTransaction test_env [] ?signed ?details [] = Inr [''11'', ''22''] \<and>
      test_submission =
        \<lparr>contractAddress = address test_account, entrypoint = ''execute'',
         calldata = Some ([contractAddress test_invocation,
                           getSelectorFromName test_env (entrypoint test_invocation),
                           string_of_nat (length ?c)]
                          @ map bn_toString [2, 100] @ [bn_toString 5]),
         signature = Some [''11'', ''22'']\<rparr>"
    by (intro conjI disjI1 refl c n1 nb1 l sd dt s1 rq)
  have "execute test_env test_account (Single test_invocation) [] test_details [] =
      (invokeFunction test_env ([] @ [SignTransaction ?signed ?details []]) test_submission,
       [] @ [SignTransaction ?signed ?details [], InvokeFunction test_submission])"
    by (rule one [THEN conjunct1, rule_format, OF H1])
  then have r1: "execute test_env test_account (Single test_invocation) [] test_details [] =
      (Inr test_receipt, [test_signing, InvokeFunction test_submission])"
    unfolding ev iv1 by simp
  have n2: "nonce no_details = None"
    by code_simp
  have g: "callContract test_env [] ?gn = Inr [''0x5'']"
    by code_simp
  have k: "toBN test_env (case [''0x5''] of [] \<Rightarrow> None | r # rs \<Rightarrow> Some (BNString r)) = Inr 5"
    by code_simp
  have h: "BNString ''0x5'' = BNString (toHex test_env 5)"
    by code_simp
  have nb2: "toBN test_env (Some (BNString ''0x5'')) = Inr 5"
    by code_simp
  have s2: "signTransaction test_env ([] @ [CallContract ?gn]) ?signed ?details []
      = Inr [''11'', ''22'']"
    by code_simp
  have iv2: "invokeFunction test_env
      [CallContract (get_nonce_request test_account), test_signing] test_submission
      = Inr test_receipt"
    by code_simp
  have gq: "CallContract ?gn = (CallContract (get_nonce_request test_account) :: unit event)"
    by code_simp
  note two = execute_outer_calldata
    [where txs = "Many [test_invocation]" and t = test_invocation and env = test_env
       and acct = test_account and det = no_details and tr = "[]" and abis = "[]"]
  have ex: "\<exists>result k.
          callContract test_env [] ?gn = Inr result \<and>
          toBN test_env (case result of [] \<Rightarrow> None | r # rs \<Rightarrow> Some (BNString r)) = Inr k \<and>
          BNString ''0x5'' = BNString (toHex test_env k) \<and>
          [] @ [CallContract ?gn] = [] @ [CallContract ?gn]"
    using g k h by blast
  have H2: "(Many [test_invocation] = Single test_invocation \<or>
       Many [test_invocation] = Many [test_invocation]) \<and>
      ?c = (case calldata test_invocation of None \<Rightarrow> [] | Some xs \<Rightarrow> xs) \<and>
      (nonce no_details = Some (BNString ''0x5'') \<and> [] @ [CallContract ?gn] = [] \<or>
       nonce no_details = None \<and>
       (\<exists>result k.
          callContract test_env [] ?gn = Inr result \<and>
          toBN test_env (case result of [] \<Rightarrow> None | r # rs \<Rightarrow> Some (BNString r)) = Inr k \<and>
          BNString ''0x5'' = BNString (toHex test_env k) \<and>
          [] @ [CallContract ?gn] = [] @ [CallContract ?gn])) \<and>
      toBN test_env (Some (BNString ''0x5'')) = Inr 5 \<and>
      list_all2 (\<lambda>x k. toBN test_env (Some x) = Inr k) ?c [2, 100] \<and>
      ?signed = [\<lparr>contractAddress = contractAddress test_invocation,
                        entrypoint = entrypoint test_invocation,
                        calldata = Some (map bn_toString [2, 100])\<rparr>] \<and>
      ?details = \<lparr>nonce = 5, walletAddress = address test_account\<rparr> \<and>
      signTransaction test_env ([] @ [CallContract ?gn]) ?signed ?details [] = Inr [''11'', ''22''] \<and>
      test_submission =
        \<lparr>contractAddress = address test_account, entrypoint = ''execute'',
         calldata = Some ([contractAddress test_invocation,
                           getSelectorFromName test_env (entrypoint test_invocation),
                           string_of_nat (length ?c)]
                          @ map bn_toString [2, 100] @ [bn_toString 5]),
         signature = Some [''11'', ''22'']\<rparr>"
    by (intro conjI disjI2 refl c n2 ex nb2 l sd dt s2 rq)
  have "execute test_env test_account (Many [test_invocation]) [] no_details [] =
      (invokeFunction test_env (([] @ [CallContract ?gn]) @ [SignTransaction ?signed ?details []])
         test_submission,
       ([] @ [CallContract ?gn]) @ [SignTransaction ?signed ?details [],
          InvokeFunction test_submission])"
    by (rule two [THEN conjunct1, rule_format, OF H2])
  then have r2: "execute test_env test_account (Many [test_invocation]) [] no_details [] =
      (Inr test_receipt,
       [CallContract (get_nonce_request test_account), test_signing,
        InvokeFunction test_submission])"
    unfolding ev gq by (simp add: iv2)
  have run: "snd (execute test_env test_account (Single test_invocation) [] test_details []) =
      [] @ [test_signing, InvokeFunction test_submission] \<and>
    InvokeFunction test_submission \<in> set [test_signing, InvokeFunction test_submission]"
    using r1 by simp
  have H3: "(Single test_invocation = Single test_invocation \<or>
       Single test_invocation = Many [test_invocation]) \<and>
      ?c = (case calldata test_invocation of None \<Rightarrow> [] | Some xs \<Rightarrow> xs) \<and>
      snd (execute test_env test_account (Single test_invocation) [] test_details []) =
        [] @ [test_signing, InvokeFunction test_submission] \<and>
      InvokeFunction test_submission \<in> set [test_signing, InvokeFunction test_submission]"
    using c run by (intro conjI disjI1 refl) simp_all
  from one [THEN conjunct2, rule_format, OF H3] obtain n nonceBn ns where
    d: "nonce test_details = Some n \<or>
        nonce test_details = None \<and>
        (\<exists>result k.
           callContract test_env [] ?gn = Inr result \<and>
           toBN test_env (case result of [] \<Rightarrow> None | r # rs \<Rightarrow> Some (BNString r)) = Inr k \<and>
           n = BNString (toHex test_env k))" and
    rest: "toBN test_env (Some n) = Inr nonceBn"
      "list_all2 (\<lambda>x k. toBN test_env (Some x) = Inr k) ?c ns"
      "calldata test_submission =
        Some ([contractAddress test_invocation,
               getSelectorFromName test_env (entrypoint test_invocation),
               string_of_nat (length ?c)]
              @ map bn_toString ns @ [bn_toString nonceBn])"
    by blast
  from d n1 have "nonce test_details = Some n"
    by simp
  with rest have b: "\<exists>n nonceBn ns.
      nonce test_details = Some n \<and> toBN test_env (Some n) = Inr nonceBn \<and>
      list_all2 (\<lambda>x k. toBN test_env (Some x) = Inr k) ?c ns \<and>
      calldata test_submission =
        Some ([contractAddress test_invocation,
               getSelectorFromName test_env (entrypoint test_invocation),
               string_of_nat (length ?c)]
              @ map bn_toString ns @ [bn_toString nonceBn])"
    by blast
  show ?thesis
    using n1 nb1 l r1 cs n2 g r2 b by blast
qed

section \<open>Rejected batches\<close>

text \<open>
  C2. For every array argument containing more than one invocation, \<^verbatim>\<open>execute\<close> fails
  immediately with a descriptive error: the result is the error, and the trace is the one
  it started from, so no nonce is resolved, nothing is signed and nothing is submitted.
\<close>

theorem execute_rejects_batch:
  "1 < length ts \<Longrightarrow>
   execute env acct (Many ts) abis det tr =
     (Inl (Error ''Only one transaction at a time is currently supported''), tr)"
  by (simp add: execute_def rejected_def)

theorem execute_rejects_batch_witness:
  "1 < length [test_invocation, bare_invocation] \<and>
   execute test_env test_account (Many [test_invocation, bare_invocation]) [] no_details [] =
     (Inl (Error ''Only one transaction at a time is currently supported''), [])"
  using execute_rejects_batch
    [of "[test_invocation, bare_invocation]" test_env test_account "[]" no_details "[]"]
  by simp

text \<open>
  C9. For every array argument whose length is not exactly one, the empty array included,
  \<^verbatim>\<open>execute\<close> throws the single-transaction error (and leaves the trace as it was).
\<close>

theorem execute_rejects_length_not_one:
  "length ts \<noteq> 1 \<Longrightarrow>
   execute env acct (Many ts) abis det tr =
     (Inl (Error ''Only one transaction at a time is currently supported''), tr)"
  by (simp add: execute_def rejected_def)

theorem execute_rejects_length_not_one_witness:
  "length ([] :: BigNumberish ExecuteInvocation list) \<noteq> 1 \<and>
   execute test_env test_account (Many []) [] test_details [] =
     (Inl (Error ''Only one transaction at a time is currently supported''), [])"
  using execute_rejects_length_not_one [of "[]" test_env test_account "[]" test_details "[]"]
  by simp

section \<open>Nonce resolution\<close>

text \<open>
  C6. For every \<^verbatim>\<open>execute\<close> call whose details supply a nonce override, no
  \<^verbatim>\<open>callContract\<close> (hence no \<^verbatim>\<open>get_nonce\<close>) request is made, and the supplied nonce is
  the one handed to the signer and the one that ends the submitted calldata. For every
  call without an override (that is not a rejected batch), the nonce is resolved by
  \<^verbatim>\<open>getNonce\<close>: the call behaves as \<^verbatim>\<open>getNonce\<close> followed, when it succeeds with \<open>h\<close>, by
  the same call with the override \<open>h\<close>.
\<close>

theorem execute_nonce_source:
  "(\<forall>n. nonce det = Some n \<longrightarrow>
      (\<exists>evs. snd (execute env acct txs abis det tr) = tr @ evs \<and>
         (\<forall>req. CallContract req \<notin> set evs) \<and>
         (\<forall>ts d a. SignTransaction ts d a \<in> set evs \<longrightarrow> toBN env (Some n) = Inr (nonce d)) \<and>
         (\<forall>req. InvokeFunction req \<in> set evs \<longrightarrow>
            (\<exists>nb cd. toBN env (Some n) = Inr nb \<and>
               calldata req = Some (cd @ [bn_toString nb]))))) \<and>
   (nonce det = None \<and> \<not> rejected txs \<longrightarrow>
      execute env acct txs abis det tr =
        (case getNonce env acct tr of
           (Inl e, t) \<Rightarrow> (Inl e, t)
         | (Inr h, t) \<Rightarrow> execute env acct txs abis (det\<lparr>nonce := Some (BNString h)\<rparr>) t))"
  using execute_override [of det _ env acct txs abis tr] execute_fetch [of det txs env acct abis tr]
  by blast

text \<open>
  With the override 5 the trace holds the signing and the submission only; without an
  override the read of \<^verbatim>\<open>get_nonce\<close> comes first and its answer \<^verbatim>\<open>0x5\<close> is used.
\<close>

theorem execute_nonce_source_witness:
  "(nonce test_details = Some (BNNumber 5) \<and>
    snd (execute test_env test_account (Single test_invocation) [] test_details []) =
      [] @ [test_signing, InvokeFunction test_submission] \<and>
    (\<forall>req. CallContract req \<notin> set [test_signing, InvokeFunction test_submission])) \<and>
   (nonce no_details = None \<and> \<not> rejected (Single test_invocation) \<and>
    getNonce test_env test_account [] =
      (Inr ''0x5'', [CallContract (get_nonce_request test_account)]) \<and>
    execute test_env test_account (Single test_invocation) [] no_details [] =
      execute test_env test_account (Single test_invocation) []
        (no_details\<lparr>nonce := Some (BNString ''0x5'')\<rparr>)
        [CallContract (get_nonce_request test_account)] \<and>
    execute test_env test_account (Single test_invocation) [] no_details [] =
      (Inr test_receipt,
       [CallContract (get_nonce_request test_account), test_signing,
        InvokeFunction test_submission]))"
proof -
  have h1: "nonce test_details = Some (BNNumber 5)"
    by code_simp
  have run: "snd (execute test_env test_account (Single test_invocation) [] test_details []) =
      [] @ [test_signing, InvokeFunction test_submission]"
    by code_simp
  have h2: "nonce no_details = None \<and> \<not> rejected (Single test_invocation)"
    by code_simp
  have g: "getNonce test_env test_account [] =
      (Inr ''0x5'', [CallContract (get_nonce_request test_account)])"
    by code_simp
  have r: "execute test_env test_account (Single test_invocation) [] no_details [] =
      (Inr test_receipt,
       [CallContract (get_nonce_request test_account), test_signing,
        InvokeFunction test_submission])"
    by code_simp
  from execute_nonce_source
    [where det = test_details and env = test_env and acct = test_account
       and txs = "Single test_invocation" and abis = "[]" and tr = "[]"] h1
  obtain evs where
    "snd (execute test_env test_account (Single test_invocation) [] test_details []) = [] @ evs"
    and "\<forall>req. CallContract req \<notin> set evs"
    by blast
  with run have a: "\<forall>req. CallContract req \<notin> set [test_signing, InvokeFunction test_submission]"
    by simp
  from execute_nonce_source
    [where det = no_details and env = test_env and acct = test_account
       and txs = "Single test_invocation" and abis = "[]" and tr = "[]"] h2
  have "execute test_env test_account (Single test_invocation) [] no_details [] =
        (case getNonce test_env test_account [] of
           (Inl e, t) \<Rightarrow> (Inl e, t)
         | (Inr h, t) \<Rightarrow>
             execute test_env test_account (Single test_invocation) []
               (no_details\<lparr>nonce := Some (BNString h)\<rparr>) t)"
    by blast
  then have b: "execute test_env test_account (Single test_invocation) [] no_details [] =
      execute test_env test_account (Single test_invocation) []
        (no_details\<lparr>nonce := Some (BNString ''0x5'')\<rparr>)
        [CallContract (get_nonce_request test_account)]"
    by (simp add: g)
  show ?thesis
    using h1 run a h2 g b r by blast
qed

text \<open>
  C7. For every \<^verbatim>\<open>execute\<close> call that resolves the nonce externally, a failure of the
  \<^verbatim>\<open>get_nonce\<close> contract read reaches the caller unchanged; the trace then ends with that
  read, so nothing is signed or submitted after the failure.
\<close>

theorem execute_get_nonce_failure:
  "\<not> rejected txs \<Longrightarrow> nonce det = None \<Longrightarrow>
   callContract env tr (get_nonce_request acct) = Inl e \<Longrightarrow>
   execute env acct txs abis det tr = (Inl e, tr @ [CallContract (get_nonce_request acct)])"
  by (simp add: execute_def resolveNonce_def getNonce_def Let_def)

theorem execute_get_nonce_failure_witness:
  "\<not> rejected (Single test_invocation) \<and> nonce no_details = None \<and>
   callContract offline_env [] (get_nonce_request test_account) = Inl (NetworkError ''timeout'') \<and>
   execute offline_env test_account (Single test_invocation) [] no_details [] =
     (Inl (NetworkError ''timeout''), [] @ [CallContract (get_nonce_request test_account)])"
proof -
  have h1: "\<not> rejected (Single test_invocation)"
    by code_simp
  have h2: "nonce no_details = None"
    by code_simp
  have h3: "callContract offline_env [] (get_nonce_request test_account) =
      Inl (NetworkError ''timeout'')"
    by code_simp
  show ?thesis
    using h1 h2 h3 execute_get_nonce_failure [OF h1 h2 h3, of "[]"] by simp
qed

section \<open>Omitted calldata\<close>

text \<open>
  C8. For every invocation whose \<^verbatim>\<open>calldata\<close> field is omitted, \<^verbatim>\<open>execute\<close> treats the
  calldata as the empty sequence: the conversion yields the empty list and cannot fail,
  the call equals the one with an explicit empty calldata, and when nonce resolution and
  signing succeed the request is submitted with the length prefix \<^verbatim>\<open>"0"\<close> between the
  selector and the nonce.
\<close>

theorem execute_omitted_calldata:
  "\<not> rejected txs \<and> calldata (invocation_of txs) = None \<longrightarrow>
     bigNumberishArrayToDecimalStringArray env (calldata_or_empty (invocation_of txs)) = Inr [] \<and>
     execute env acct (Single (invocation_of txs)) abis det tr =
       execute env acct (Single ((invocation_of txs)\<lparr>calldata := Some []\<rparr>)) abis det tr \<and>
     (\<forall>n tr1 nonceBn sg.
        resolveNonce env acct det tr = (Inr n, tr1) \<and> toBN env (Some n) = Inr nonceBn \<and>
        signTransaction env tr1 (signed_transactions (invocation_of txs) [])
          (signer_details acct nonceBn) abis = Inr sg \<longrightarrow>
        (\<exists>tr2 req.
           execute env acct txs abis det tr =
             (invokeFunction env tr2 req, tr2 @ [InvokeFunction req]) \<and>
           calldata req =
             Some [contractAddress (invocation_of txs),
                   getSelectorFromName env (entrypoint (invocation_of txs)),
                   ''0'', bn_toString nonceBn]))"
proof (intro impI conjI allI)
  assume h: "\<not> rejected txs \<and> calldata (invocation_of txs) = None"
  then have emp: "calldata_or_empty (invocation_of txs) = []"
    by (simp add: calldata_or_empty_def)
  show "bigNumberishArrayToDecimalStringArray env (calldata_or_empty (invocation_of txs)) = Inr []"
    by (simp add: emp bigNumberishArrayToDecimalStringArray_def)
  show "execute env acct (Single (invocation_of txs)) abis det tr =
       execute env acct (Single ((invocation_of txs)\<lparr>calldata := Some []\<rparr>)) abis det tr"
    using h by (intro execute_Single_cong) (simp_all add: calldata_or_empty_def)
  fix n tr1 nonceBn sg
  assume s: "resolveNonce env acct det tr = (Inr n, tr1) \<and> toBN env (Some n) = Inr nonceBn \<and>
        signTransaction env tr1 (signed_transactions (invocation_of txs) [])
          (signer_details acct nonceBn) abis = Inr sg"
  have m: "mapM (\<lambda>x. toBN env (Some x)) (calldata_or_empty (invocation_of txs)) = Inr []"
    by (simp add: emp)
  have "execute env acct txs abis det tr =
     (let tr2 = tr1 @ [SignTransaction (signed_transactions (invocation_of txs) (map bn_toString []))
                         (signer_details acct nonceBn) abis];
          req = \<lparr>contractAddress = address acct, entrypoint = ''execute'',
                 calldata = Some ([contractAddress (invocation_of txs),
                                   getSelectorFromName env (entrypoint (invocation_of txs)),
                                   string_of_nat (length (calldata_or_empty (invocation_of txs)))]
                                  @ map bn_toString [] @ [bn_toString nonceBn]),
                 signature = Some sg\<rparr>
      in (invokeFunction env tr2 req, tr2 @ [InvokeFunction req]))"
    using h s m
      execute_success [where txs = txs and env = env and acct = acct and det = det and tr = tr
        and n = n and ?tr1.0 = tr1 and nonceBn = nonceBn and ns = "[]" and abis = abis and sg = sg]
    by simp
  then show "\<exists>tr2 req.
           execute env acct txs abis det tr =
             (invokeFunction env tr2 req, tr2 @ [InvokeFunction req]) \<and>
           calldata req =
             Some [contractAddress (invocation_of txs),
                   getSelectorFromName env (entrypoint (invocation_of txs)),
                   ''0'', bn_toString nonceBn]"
    by (simp add: Let_def emp string_of_nat_0)
qed

theorem execute_omitted_calldata_witness:
  "(\<not> rejected (Many [bare_invocation]) \<and>
    calldata (invocation_of (Many [bare_invocation])) = None) \<and>
   (resolveNonce test_env test_account test_details [] = (Inr (BNNumber 5), []) \<and>
    toBN test_env (Some (BNNumber 5)) = Inr 5 \<and>
    signTransaction test_env [] (signed_transactions (invocation_of (Many [bare_invocation])) [])
      (signer_details test_account 5) [] = Inr [''11'', ''22'']) \<and>
   (\<exists>tr2 req.
      execute test_env test_account (Many [bare_invocation]) [] test_details [] =
        (invokeFunction test_env tr2 req, tr2 @ [InvokeFunction req]) \<and>
      calldata req = Some [''0x1'', ''selector(transfer)'', ''0'', ''5'']) \<and>
   execute test_env test_account (Many [bare_invocation]) [] test_details [] =
     (Inr test_receipt, [bare_signing, InvokeFunction bare_submission])"
proof -
  have h: "\<not> rejected (Many [bare_invocation]) \<and>
    calldata (invocation_of (Many [bare_invocation])) = None"
    by code_simp
  have s: "resolveNonce test_env test_account test_details [] = (Inr (BNNumber 5), []) \<and>
    toBN test_env (Some (BNNumber 5)) = Inr 5 \<and>
    signTransaction test_env [] (signed_transactions (invocation_of (Many [bare_invocation])) [])
      (signer_details test_account 5) [] = Inr [''11'', ''22'']"
    by code_simp
  have ev: "[contractAddress (invocation_of (Many [bare_invocation])),
             getSelectorFromName test_env (entrypoint (invocation_of (Many [bare_invocation]))),
             ''0'', bn_toString 5] = [''0x1'', ''selector(transfer)'', ''0'', ''5'']"
    by code_simp
  have r: "execute test_env test_account (Many [bare_invocation]) [] test_details [] =
     (Inr test_receipt, [bare_signing, InvokeFunction bare_submission])"
    by code_simp
  from execute_omitted_calldata
    [where txs = "Many [bare_invocation]" and env = test_env and acct = test_account
       and det = test_details and tr = "[]" and abis = "[]"] h s
  obtain tr2 req where
    e: "execute test_env test_account (Many [bare_invocation]) [] test_details [] =
          (invokeFunction test_env tr2 req, tr2 @ [InvokeFunction req])" and
    c: "calldata req =
          Some [contractAddress (invocation_of (Many [bare_invocation])),
             getSelectorFromName test_env (entrypoint (invocation_of (Many [bare_invocation]))),
             ''0'', bn_toString 5]"
    by blast
  from c have c': "calldata req = Some [''0x1'', ''selector(transfer)'', ''0'', ''5'']"
    unfolding ev .
  show ?thesis
    using h s e c' r by blast
qed

section \<open>Delegated verification\<close>

text \<open>
  C3. For every hash and signature, \<^verbatim>\<open>verifyMessageHash\<close> returns true if the delegated
  \<^verbatim>\<open>is_valid_signature\<close> call succeeds and false if that call fails, whatever the error;
  it never propagates an error: its result is always a boolean, also when building the
  request throws inside the \<^verbatim>\<open>try\<close> block.
\<close>

theorem verifyMessageHash_boolean:
  "(\<exists>b. fst (verifyMessageHash env acct h sg tr) = Inr b) \<and>
   (\<forall>req r. is_valid_signature_request env acct h sg = Inr req \<and>
            callContract env tr req = Inr r \<longrightarrow>
            fst (verifyMessageHash env acct h sg tr) = Inr True) \<and>
   (\<forall>req e. is_valid_signature_request env acct h sg = Inr req \<and>
            callContract env tr req = Inl e \<longrightarrow>
            fst (verifyMessageHash env acct h sg tr) = Inr False) \<and>
   (\<forall>e. is_valid_signature_request env acct h sg = Inl e \<longrightarrow>
        verifyMessageHash env acct h sg tr = (Inr False, tr))"
  by (auto simp: verifyMessageHash_def split: sum.splits)

text \<open>
  The test provider answers the first read and times out on later ones; a hash that is
  not a number makes the request itself fail.
\<close>

theorem verifyMessageHash_boolean_witness:
  "(is_valid_signature_request test_env test_account (BNString ''0x7b'') [''1'', ''2'']
      = Inr test_validation \<and>
    callContract test_env [] test_validation = Inr [] \<and>
    fst (verifyMessageHash test_env test_account (BNString ''0x7b'') [''1'', ''2''] [])
      = Inr True) \<and>
   (callContract test_env [CallContract test_validation] test_validation
      = Inl (NetworkError ''timeout'') \<and>
    fst (verifyMessageHash test_env test_account (BNString ''0x7b'') [''1'', ''2'']
           [CallContract test_validation]) = Inr False) \<and>
   (is_valid_signature_request test_env test_account (BNString ''zz'') [''1'', ''2'']
      = Inl (Error ''Invalid character'') \<and>
    verifyMessageHash test_env test_account (BNString ''zz'') [''1'', ''2''] [] = (Inr False, []))"
proof -
  have q: "is_valid_signature_request test_env test_account (BNString ''0x7b'') [''1'', ''2'']
      = Inr test_validation"
    by code_simp
  have ok: "callContract test_env [] test_validation = Inr []"
    by code_simp
  have ko: "callContract test_env [CallContract test_validation] test_validation
      = Inl (NetworkError ''timeout'')"
    by code_simp
  have bad: "is_valid_signature_request test_env test_account (BNString ''zz'') [''1'', ''2'']
      = Inl (Error ''Invalid character'')"
    by code_simp
  have a: "fst (verifyMessageHash test_env test_account (BNString ''0x7b'') [''1'', ''2''] [])
      = Inr True"
    using q ok
      verifyMessageHash_boolean
        [where env = test_env and acct = test_account and h = "BNString ''0x7b''"
           and sg = "[''1'', ''2'']" and tr = "[]"]
    by blast
  have b: "fst (verifyMessageHash test_env test_account (BNString ''0x7b'') [''1'', ''2'']
           [CallContract test_validation]) = Inr False"
    using q ko
      verifyMessageHash_boolean
        [where env = test_env and acct = test_account and h = "BNString ''0x7b''"
           and sg = "[''1'', ''2'']" and tr = "[CallContract test_validation]"]
    by blast
  have c: "verifyMessageHash test_env test_account (BNString ''zz'') [''1'', ''2''] []
      = (Inr False, [])"
    using bad
      verifyMessageHash_boolean
        [where env = test_env and acct = test_account and h = "BNString ''zz''"
           and sg = "[''1'', ''2'']" and tr = "[]"]
    by blast
  show ?thesis
    using q ok ko bad a b c by blast
qed

text \<open>
  C4. For every typed-data value and signature, \<^verbatim>\<open>verifyMessage\<close> is the composition of
  \<^verbatim>\<open>hashMessage\<close> and \<^verbatim>\<open>verifyMessageHash\<close>: when \<^verbatim>\<open>hashMessage\<close> returns a hash, the
  result (boolean and trace) is that of \<^verbatim>\<open>verifyMessageHash\<close> on this hash and the
  signature; when \<^verbatim>\<open>hashMessage\<close> throws there is no hash to verify and its error is the
  result.
\<close>

theorem verifyMessage_composition:
  "(\<forall>hash t. hashMessage env acct typedData tr = (Inr hash, t) \<longrightarrow>
       verifyMessage env acct typedData sg tr = verifyMessageHash env acct (BNString hash) sg t) \<and>
   (\<forall>e t. hashMessage env acct typedData tr = (Inl e, t) \<longrightarrow>
       verifyMessage env acct typedData sg tr = (Inl e, t))"
  by (simp add: verifyMessage_def)

theorem verifyMessage_composition_witness:
  "(hashMessage test_env test_account () [] = (Inr ''0x7b'', []) \<and>
    verifyMessage test_env test_account () [''1'', ''2''] [] =
      verifyMessageHash test_env test_account (BNString ''0x7b'') [''1'', ''2''] [] \<and>
    verifyMessage test_env test_account () [''1'', ''2''] [] =
      (Inr True, [CallContract test_validation])) \<and>
   (hashMessage strict_env test_account () [] = (Inl (Error ''invalid typed data''), []) \<and>
    verifyMessage strict_env test_account () [''1'', ''2''] [] =
      (Inl (Error ''invalid typed data''), []))"
proof -
  have h1: "hashMessage test_env test_account () [] = (Inr ''0x7b'', [])"
    by code_simp
  have h2: "hashMessage strict_env test_account () [] = (Inl (Error ''invalid typed data''), [])"
    by code_simp
  have v: "verifyMessageHash test_env test_account (BNString ''0x7b'') [''1'', ''2''] [] =
      (Inr True, [CallContract test_validation])"
    by code_simp
  have a: "verifyMessage test_env test_account () [''1'', ''2''] [] =
      verifyMessageHash test_env test_account (BNString ''0x7b'') [''1'', ''2''] []"
    using h1
      verifyMessage_composition
        [where env = test_env and acct = test_account and typedData = "()"
           and sg = "[''1'', ''2'']" and tr = "[]"]
    by blast
  have b: "verifyMessage strict_env test_account () [''1'', ''2''] [] =
      (Inl (Error ''invalid typed data''), [])"
    using h2
      verifyMessage_composition
        [where env = strict_env and acct = test_account and typedData = "()"
           and sg = "[''1'', ''2'']" and tr = "[]"]
    by blast
  show ?thesis
    using h1 h2 a b v by simp
qed

text \<open>
  C5. For every hash and signature, the calldata of the \<^verbatim>\<open>is_valid_signature\<close> call that
  \<^verbatim>\<open>verifyMessageHash\<close> issues is exactly: the hash, the length of the signature, then
  the signature elements in order (all as decimal strings of their numeric values); the
  call goes to the account's own address, and when the request can be built it is the
  one read that is made.
\<close>

theorem verifyMessageHash_calldata:
  "(\<forall>evs req.
      snd (verifyMessageHash env acct h sg tr) = tr @ evs \<and> CallContract req \<in> set evs \<longrightarrow>
      (\<exists>hb ss. toBN env (Some h) = Inr hb \<and>
          mapM (\<lambda>x. toBN env (Some (BNString x))) sg = Inr ss \<and>
          contractAddress req = address acct \<and> entrypoint req = ''is_valid_signature'' \<and>
          calldata req =
            Some ([bn_toString hb, string_of_nat (length sg)] @ map bn_toString ss))) \<and>
   (\<forall>req. is_valid_signature_request env acct h sg = Inr req \<longrightarrow>
      snd (verifyMessageHash env acct h sg tr) = tr @ [CallContract req])"
  by (auto simp: verifyMessageHash_def split: sum.splits dest!: request_shape)

theorem verifyMessageHash_calldata_witness:
  "(is_valid_signature_request test_env test_account (BNString ''0x7b'') [''1'', ''2'']
      = Inr test_validation \<and>
    snd (verifyMessageHash test_env test_account (BNString ''0x7b'') [''1'', ''2''] [])
      = [] @ [CallContract test_validation] \<and>
    CallContract test_validation \<in> set [CallContract test_validation :: unit event]) \<and>
   (\<exists>hb ss. toBN test_env (Some (BNString ''0x7b'')) = Inr hb \<and>
      mapM (\<lambda>x. toBN test_env (Some (BNString x))) [''1'', ''2''] = Inr ss \<and>
      calldata test_validation =
        Some ([bn_toString hb, string_of_nat (length [''1'', ''2''])] @ map bn_toString ss)) \<and>
   calldata test_validation = Some [''123'', ''2'', ''1'', ''2'']"
proof -
  have q: "is_valid_signature_request test_env test_account (BNString ''0x7b'') [''1'', ''2'']
      = Inr test_validation"
    by code_simp
  have m: "CallContract test_validation \<in> set [CallContract test_validation :: unit event]"
    by simp
  have c: "calldata test_validation = Some [''123'', ''2'', ''1'', ''2'']"
    by code_simp
  note inst = verifyMessageHash_calldata
    [where env = test_env and acct = test_account and h = "BNString ''0x7b''"
       and sg = "[''1'', ''2'']" and tr = "[]"]
  from inst q have s:
    "snd (verifyMessageHash test_env test_account (BNString ''0x7b'') [''1'', ''2''] [])
      = [] @ [CallContract test_validation]"
    by blast
  from inst s m have e:
    "\<exists>hb ss. toBN test_env (Some (BNString ''0x7b'')) = Inr hb \<and>
      mapM (\<lambda>x. toBN test_env (Some (BNString x))) [''1'', ''2''] = Inr ss \<and>
      calldata test_validation =
        Some ([bn_toString hb, string_of_nat (length [''1'', ''2''])] @ map bn_toString ss)"
    by blast
  show ?thesis
    using q s m e c by blast
qed

text \<open>
  C10. For every hash and signature, \<^verbatim>\<open>verifyMessageHash\<close> decides from whether the
  delegated call resolves, never from what it returns: a read that succeeds yields true
  whatever data \<open>r\<close> it carries, a read that fails yields false, and replacing the data
  of every successful answer of the provider by anything else (through an arbitrary \<open>f\<close>)
  changes neither the boolean nor the trace.
\<close>

theorem verifyMessageHash_ignores_result:
  "verifyMessageHash (env\<lparr>callContract := \<lambda>t q. map_sum id f (callContract env t q)\<rparr>) acct h sg tr
     = verifyMessageHash env acct h sg tr \<and>
   (\<forall>req r. is_valid_signature_request env acct h sg = Inr req \<and>
            callContract env tr req = Inr r \<longrightarrow>
            verifyMessageHash env acct h sg tr = (Inr True, tr @ [CallContract req])) \<and>
   (\<forall>req e. is_valid_signature_request env acct h sg = Inr req \<and>
            callContract env tr req = Inl e \<longrightarrow>
            verifyMessageHash env acct h sg tr = (Inr False, tr @ [CallContract req]))"
  by (auto simp: verifyMessageHash_def request_ignores_network split: sum.splits)

text \<open>
  An answer that carries \<^verbatim>\<open>["0"]\<close> (a contract saying "invalid") yields true like the
  empty answer does; the timed-out read yields false.
\<close>

theorem verifyMessageHash_ignores_result_witness:
  "(verifyMessageHash relabelled_env test_account (BNString ''0x7b'') [''1'', ''2''] [] =
      verifyMessageHash test_env test_account (BNString ''0x7b'') [''1'', ''2''] []) \<and>
   (is_valid_signature_request test_env test_account (BNString ''0x7b'') [''1'', ''2'']
      = Inr test_validation \<and>
    callContract test_env [] test_validation = Inr [] \<and>
    verifyMessageHash test_env test_account (BNString ''0x7b'') [''1'', ''2''] [] =
      (Inr True, [] @ [CallContract test_validation])) \<and>
   (is_valid_signature_request relabelled_env test_account (BNString ''0x7b'') [''1'', ''2'']
      = Inr test_validation \<and>
    callContract relabelled_env [] test_validation = Inr [''0''] \<and>
    verifyMessageHash relabelled_env test_account (BNString ''0x7b'') [''1'', ''2''] [] =
      (Inr True, [] @ [CallContract test_validation])) \<and>
   (callContract test_env [CallContract test_validation] test_validation
      = Inl (NetworkError ''timeout'') \<and>
    verifyMessageHash test_env test_account (BNString ''0x7b'') [''1'', ''2'']
      [CallContract test_validation] =
      (Inr False, [CallContract test_validation] @ [CallContract test_validation]))"
proof -
  have q1: "is_valid_signature_request test_env test_account (BNString ''0x7b'') [''1'', ''2'']
      = Inr test_validation"
    by code_simp
  have q2: "is_valid_signature_request relabelled_env test_account (BNString ''0x7b'')
      [''1'', ''2''] = Inr test_validation"
    by code_simp
  have ok1: "callContract test_env [] test_validation = Inr []"
    by code_simp
  have ok2: "callContract relabelled_env [] test_validation = Inr [''0'']"
    by code_simp
  have ko: "callContract test_env [CallContract test_validation] test_validation
      = Inl (NetworkError ''timeout'')"
    by code_simp
  note a = verifyMessageHash_ignores_result
    [where env = test_env and f = "\<lambda>r. [''0'']" and acct = test_account
       and h = "BNString ''0x7b''" and sg = "[''1'', ''2'']" and tr = "[]",
     THEN conjunct1, folded relabelled_env_def]
  note b = verifyMessageHash_ignores_result
    [where env = test_env and f = id and acct = test_account
       and h = "BNString ''0x7b''" and sg = "[''1'', ''2'']" and tr = "[]",
     THEN conjunct2, THEN conjunct1, rule_format, OF conjI [OF q1 ok1]]
  note c = verifyMessageHash_ignores_result
    [where env = relabelled_env and f = id and acct = test_account
       and h = "BNString ''0x7b''" and sg = "[''1'', ''2'']" and tr = "[]",
     THEN conjunct2, THEN conjunct1, rule_format, OF conjI [OF q2 ok2]]
  note d = verifyMessageHash_ignores_result
    [where env = test_env and f = id and acct = test_account
       and h = "BNString ''0x7b''" and sg = "[''1'', ''2'']"
       and tr = "[CallContract test_validation]",
     THEN conjunct2, THEN conjunct2, rule_format, OF conjI [OF q1 ko]]
  show ?thesis
    by (intro conjI a b c d q1 q2 ok1 ok2 ko)
qed

end
